theory Spec2Isabelle
  imports Main
begin

section \<open>The database root as a directory tree\<close>

text \<open>
  \<^verbatim>\<open>get_database_list\<close> walks the directory \<^verbatim>\<open>backend_args.db_path\<close> with
  \<^verbatim>\<open>Path.rglob\<close>. A directory entry is a file or a directory with its entries in the
  order the operating system reports them; a path is the list of its components, the
  name of the root directory first.
\<close>

datatype entry = File string | Dir string "entry list"

type_synonym path = "string list"

fun entry_name :: "entry \<Rightarrow> string" where
  "entry_name (File n) = n"
| "entry_name (Dir n es) = n"

text \<open>
  \<^verbatim>\<open>str.rfind\<close>: the index of the last occurrence of a character, if there is one.
\<close>

fun rfind :: "char \<Rightarrow> string \<Rightarrow> nat option" where
  "rfind c [] = None"
| "rfind c (x # xs) =
     (case rfind c xs of
        Some i \<Rightarrow> Some (Suc i)
      | None \<Rightarrow> if x = c then Some 0 else None)"

text \<open>
  \<^verbatim>\<open>PurePath.stem\<close> of a component: the name without its suffix, where the suffix
  starts at the last dot, unless that dot is the first or the last character
  (\<^verbatim>\<open>if 0 < i < len(name) - 1: return name[:i] else: return name\<close>).
\<close>

definition stem :: "string \<Rightarrow> string" where
  "stem name =
     (case rfind (CHR ''.'') name of
        None \<Rightarrow> name
      | Some i \<Rightarrow> if 0 < i \<and> i + 1 < length name then take i name else name)"

text \<open>
  The pattern \<^verbatim>\<open>*.sqlite\<close> matches a component that ends in \<^verbatim>\<open>.sqlite\<close>
  (the star matches any characters, none included).
\<close>

definition endswith :: "string \<Rightarrow> string \<Rightarrow> bool" where
  "endswith name suf =
     (length suf \<le> length name \<and> drop (length name - length suf) name = suf)"

definition matches_sqlite :: "string \<Rightarrow> bool" where
  "matches_sqlite name = endswith name ''.sqlite''"

text \<open>
  \<^verbatim>\<open>db_dir.rglob("*.sqlite")\<close>: the entries (files and directories alike) of the
  directory itself that match, then those of each subdirectory in turn, at every depth.
  \<open>pre\<close> holds the components above the directory walked.
\<close>

fun rglob_sqlite :: "path \<Rightarrow> entry \<Rightarrow> path list" where
  "rglob_sqlite pre (File n) = []"
| "rglob_sqlite pre (Dir d es) =
     [pre @ [d, entry_name e]. e \<leftarrow> es, matches_sqlite (entry_name e)]
     @ concat (map (rglob_sqlite (pre @ [d])) es)"

text \<open>
  \<^verbatim>\<open>db_file.stem\<close> and \<^verbatim>\<open>db_file.parent.stem\<close> of a path with at least two
  components.
\<close>

definition path_stem :: "path \<Rightarrow> string" where
  "path_stem p = stem (last p)"

definition parent :: "path \<Rightarrow> path" where
  "parent p = butlast p"

text \<open>
  \<^verbatim>\<open>return [db_file.stem for db_file in db_files if db_file.stem == db_file.parent.stem]\<close>
\<close>

definition get_database_list :: "entry \<Rightarrow> string list" where
  "get_database_list db_dir =
     [path_stem db_file. db_file \<leftarrow> rglob_sqlite [] db_dir,
        path_stem db_file = path_stem (parent db_file)]"

text \<open>
  Where an entry lies in a tree, stated apart from the walk: an entry is at the path of
  its own name, and an entry of a directory is below the directory's name.
\<close>

inductive located :: "entry \<Rightarrow> path \<Rightarrow> bool" where
  here: "located e [entry_name e]"
| below: "e \<in> set es \<Longrightarrow> located e p \<Longrightarrow> located (Dir d es) (d # p)"

section \<open>The sqlite3 module and the file system\<close>

text \<open>
  The handlers reach a database through four calls of Python's \<^verbatim>\<open>sqlite3\<close> module:
  \<^verbatim>\<open>connect\<close>, \<^verbatim>\<open>execute\<close>, \<^verbatim>\<open>commit\<close> and \<^verbatim>\<open>close\<close>. The module is not part of the
  repository, so it is a parameter of every handler: \<open>'db\<close> is what a database file
  holds, \<open>'conn\<close> the state of an open connection (what is on disk together with
  whatever the module keeps uncommitted), \<open>'row\<close> a result row.

  \<^item> \<open>connect\<close> receives the file's contents, \<open>None\<close> when there is no file yet, and
    raises or returns a connection;
  \<^item> \<open>execute\<close> runs one statement: it raises or returns the fetched rows, and gives
    the connection's next state either way;
  \<^item> \<open>commit\<close> makes the open transaction durable, or raises;
  \<^item> \<open>close\<close> gives what the file holds once the connection is closed (a connection
    opened on a missing file has created the file by then).

  Of the exceptions a call raises the handlers tell \<^verbatim>\<open>OperationalError\<close> from all
  others (\<^verbatim>\<open>IntegrityError\<close>, \<^verbatim>\<open>ProgrammingError\<close>, ...); each carries its message,
  \<^verbatim>\<open>e.args[0]\<close>.
\<close>

datatype exc = OperationalError string | OtherError string

record ('db, 'conn, 'row) sqlite3 =
  connect :: "'db option \<Rightarrow> exc + 'conn"
  execute :: "'conn \<Rightarrow> string \<Rightarrow> (exc + 'row list) \<times> 'conn"
  commit :: "'conn \<Rightarrow> exc option \<times> 'conn"
  close :: "'conn \<Rightarrow> 'db"

text \<open>
  The database files on disk, by path. What a handler gives back is a value or the
  exception that ends the request: an \<^verbatim>\<open>HTTPException\<close> with its status code and
  detail, an exception no handler catches, or the \<^verbatim>\<open>UnboundLocalError\<close> of a
  \<^verbatim>\<open>finally\<close> block that names a variable never assigned.
\<close>

type_synonym 'db files = "string \<rightharpoonup> 'db"

datatype error = HTTPException nat string | Uncaught exc | UnboundLocalError string

section \<open>The request handlers\<close>

subsection \<open>\<^verbatim>\<open>/ask/\<close>\<close>

text \<open>
  An element of the pipeline's output is a dictionary read at \<^verbatim>\<open>"generated_text"\<close>;
  \<^verbatim>\<open>AskResponse\<close> is the response model of one candidate.
\<close>

record pipe_output =
  generated_text :: string

record 'row AskResponse =
  query :: string
  execution_results :: "'row list"

text \<open>
  The detail of the 500 response:
  \<^verbatim>\<open>f'while executing "{query}", the following error occurred: {e.args[0]}'\<close>.
\<close>

definition execution_detail :: "string \<Rightarrow> string \<Rightarrow> string" where
  "execution_detail q msg =
     ''while executing '' @ [CHR 0x22] @ q @ [CHR 0x22]
       @ '', the following error occurred: '' @ msg"

text \<open>
  \<^verbatim>\<open>response(query, conn)\<close>: the rows of the query, or an \<^verbatim>\<open>HTTPException\<close> with
  status 500 for an \<^verbatim>\<open>OperationalError\<close>; any other exception passes through.
\<close>

definition response ::
  "('db, 'conn, 'row) sqlite3 \<Rightarrow> string \<Rightarrow> 'conn \<Rightarrow> (error + 'row AskResponse) \<times> 'conn"
where
  "response sq q conn =
     (case execute sq conn q of
        (Inr rows, conn') \<Rightarrow> (Inr \<lparr>query = q, execution_results = rows\<rparr>, conn')
      | (Inl (OperationalError msg), conn') \<Rightarrow>
          (Inl (HTTPException 500 (execution_detail q msg)), conn')
      | (Inl (OtherError msg), conn') \<Rightarrow> (Inl (Uncaught (OtherError msg)), conn'))"

text \<open>
  \<^verbatim>\<open>[response(query=output["generated_text"], conn=conn) for output in outputs]\<close>:
  the comprehension builds the list from the first candidate on, and an exception
  raised for one candidate ends it.
\<close>

fun responses ::
  "('db, 'conn, 'row) sqlite3 \<Rightarrow> 'conn \<Rightarrow> string list
     \<Rightarrow> (error + 'row AskResponse list) \<times> 'conn"
where
  "responses sq conn [] = (Inr [], conn)"
| "responses sq conn (q # qs) =
     (case response sq q conn of
        (Inl e, conn') \<Rightarrow> (Inl e, conn')
      | (Inr r, conn') \<Rightarrow>
          (case responses sq conn' qs of
             (Inl e, conn'') \<Rightarrow> (Inl e, conn'')
           | (Inr rs, conn'') \<Rightarrow> (Inr (r # rs), conn'')))"

text \<open>
  \<^verbatim>\<open>ask(db_id, question)\<close>. The generation pipeline \<open>pipe\<close> is a parameter: it reads
  the files and raises or returns its outputs. An \<^verbatim>\<open>OperationalError\<close> of the pipeline
  becomes status 404. The connection is opened inside the \<^verbatim>\<open>try\<close> whose \<^verbatim>\<open>finally\<close>
  closes it, so a \<^verbatim>\<open>connect\<close> that raises leaves \<^verbatim>\<open>conn\<close> unassigned for the
  \<^verbatim>\<open>finally\<close> block. The pair returned is the response and the files after the call.
\<close>

definition ask ::
  "('db, 'conn, 'row) sqlite3
     \<Rightarrow> ('db files \<Rightarrow> string \<Rightarrow> string \<Rightarrow> nat \<Rightarrow> exc + pipe_output list)
     \<Rightarrow> nat \<Rightarrow> string \<Rightarrow> 'db files \<Rightarrow> string \<Rightarrow> string
     \<Rightarrow> (error + 'row AskResponse list) \<times> 'db files"
where
  "ask sq pipe num_return_sequences db_path fs db_id question =
     (case pipe fs question db_id num_return_sequences of
        Inl (OperationalError msg) \<Rightarrow> (Inl (HTTPException 404 msg), fs)
      | Inl (OtherError msg) \<Rightarrow> (Inl (Uncaught (OtherError msg)), fs)
      | Inr outputs \<Rightarrow>
          (let file = db_path @ ''/'' @ db_id @ ''/'' @ db_id @ ''.sqlite'' in
           case connect sq (fs file) of
             Inl e \<Rightarrow> (Inl (UnboundLocalError ''conn''), fs)
           | Inr conn \<Rightarrow>
               (case responses sq conn (map generated_text outputs) of
                  (r, conn') \<Rightarrow> (r, fs(file \<mapsto> close sq conn')))))"

subsection \<open>\<^verbatim>\<open>/ask-with-schema/\<close>\<close>

text \<open>
  \<^verbatim>\<open>ask_with_schema(query)\<close>: the body carries \<^verbatim>\<open>question\<close> and \<^verbatim>\<open>db_schema\<close>. The
  second pipeline \<open>pipe_with_schema\<close> is a parameter: it is given the files, the
  question, the schema text and the number of sequences, raises or returns its outputs,
  and gives the files as it leaves them. The handler itself calls nothing of
  \<^verbatim>\<open>sqlite3\<close>.
\<close>

record Query =
  question :: string
  db_schema :: string

definition ask_with_schema ::
  "('db files \<Rightarrow> string \<Rightarrow> string \<Rightarrow> nat \<Rightarrow> (exc + pipe_output list) \<times> 'db files)
     \<Rightarrow> nat \<Rightarrow> 'db files \<Rightarrow> Query \<Rightarrow> (error + string list) \<times> 'db files"
where
  "ask_with_schema pipe_with_schema num_return_sequences fs body =
     (case pipe_with_schema fs (question body) (db_schema body) num_return_sequences of
        (Inl (OperationalError msg), fs') \<Rightarrow> (Inl (HTTPException 404 msg), fs')
      | (Inl (OtherError msg), fs') \<Rightarrow> (Inl (Uncaught (OtherError msg)), fs')
      | (Inr outputs, fs') \<Rightarrow> (Inr (map generated_text outputs), fs'))"

subsection \<open>\<^verbatim>\<open>POST\<close> and \<^verbatim>\<open>PATCH /schema/{db_id}\<close>\<close>

text \<open>
  \<^verbatim>\<open>for query in queries: cur.execute(query)\<close>: the statements in order, up to the first
  that raises.
\<close>

fun execute_all ::
  "('db, 'conn, 'row) sqlite3 \<Rightarrow> 'conn \<Rightarrow> string list \<Rightarrow> exc option \<times> 'conn"
where
  "execute_all sq con [] = (None, con)"
| "execute_all sq con (q # queries) =
     (case execute sq con q of
        (Inl e, con') \<Rightarrow> (Some e, con')
      | (Inr rows, con') \<Rightarrow> execute_all sq con' queries)"

text \<open>
  The lines both handlers end with:
  \<^verbatim>\<open>
  con = sqlite3.connect(db_file_path.as_posix())
  cur = con.cursor()
  try:
      for query in queries:
          cur.execute(query)
      con.commit()
  except OperationalError as e:
      raise HTTPException(status_code=400, detail=e.args[0])
  finally:
      con.close()
  return get_schema(backend_args.db_path, db_id)
  \<close>
  \<^verbatim>\<open>connect\<close> stands before the \<^verbatim>\<open>try\<close>, so what it raises no handler catches;
  \<^verbatim>\<open>commit\<close> stands inside it, so its \<^verbatim>\<open>OperationalError\<close> becomes status 400 as well.
  \<^verbatim>\<open>get_schema\<close> (of \<^verbatim>\<open>seq2seq.utils.pipeline\<close>) is a parameter that reads the files and
  raises or returns the schema.
\<close>

definition execute_and_commit ::
  "('db, 'conn, 'row) sqlite3 \<Rightarrow> ('db files \<Rightarrow> string \<Rightarrow> string \<Rightarrow> exc + 'schema)
     \<Rightarrow> string \<Rightarrow> 'db files \<Rightarrow> string \<Rightarrow> string \<Rightarrow> string list
     \<Rightarrow> (error + 'schema) \<times> 'db files"
where
  "execute_and_commit sq get_schema db_path fs db_id db_file_path queries =
     (case connect sq (fs db_file_path) of
        Inl e \<Rightarrow> (Inl (Uncaught e), fs)
      | Inr con \<Rightarrow>
          (case execute_all sq con queries of
             (None, con') \<Rightarrow>
               (case commit sq con' of
                  (None, con'') \<Rightarrow>
                    (let fs' = fs(db_file_path \<mapsto> close sq con'') in
                     case get_schema fs' db_path db_id of
                       Inl e \<Rightarrow> (Inl (Uncaught e), fs')
                     | Inr schema \<Rightarrow> (Inr schema, fs'))
                | (Some (OperationalError msg), con'') \<Rightarrow>
                    (Inl (HTTPException 400 msg), fs(db_file_path \<mapsto> close sq con''))
                | (Some (OtherError msg), con'') \<Rightarrow>
                    (Inl (Uncaught (OtherError msg)), fs(db_file_path \<mapsto> close sq con'')))
           | (Some (OperationalError msg), con') \<Rightarrow>
               (Inl (HTTPException 400 msg), fs(db_file_path \<mapsto> close sq con'))
           | (Some (OtherError msg), con') \<Rightarrow>
               (Inl (Uncaught (OtherError msg)), fs(db_file_path \<mapsto> close sq con'))))"

text \<open>
  \<^verbatim>\<open>create_schema(db_id, queries)\<close>: status 409 when the file exists; otherwise the
  parent directory is made (directories are not part of \<open>'db files\<close>) and the statements
  are run. \<^verbatim>\<open>get_db_file_path\<close> (of \<^verbatim>\<open>seq2seq.utils.pipeline\<close>) is a parameter.
\<close>

definition create_schema ::
  "('db, 'conn, 'row) sqlite3 \<Rightarrow> (string \<Rightarrow> string \<Rightarrow> string)
     \<Rightarrow> ('db files \<Rightarrow> string \<Rightarrow> string \<Rightarrow> exc + 'schema)
     \<Rightarrow> string \<Rightarrow> 'db files \<Rightarrow> string \<Rightarrow> string list
     \<Rightarrow> (error + 'schema) \<times> 'db files"
where
  "create_schema sq get_db_file_path get_schema db_path fs db_id queries =
     (let db_file_path = get_db_file_path db_path db_id in
      if db_file_path \<in> dom fs
      then (Inl (HTTPException 409 ''database already exists''), fs)
      else execute_and_commit sq get_schema db_path fs db_id db_file_path queries)"

text \<open>
  \<^verbatim>\<open>update_schema(db_id, queries)\<close>: status 404 when the file does not exist.
\<close>

definition update_schema ::
  "('db, 'conn, 'row) sqlite3 \<Rightarrow> (string \<Rightarrow> string \<Rightarrow> string)
     \<Rightarrow> ('db files \<Rightarrow> string \<Rightarrow> string \<Rightarrow> exc + 'schema)
     \<Rightarrow> string \<Rightarrow> 'db files \<Rightarrow> string \<Rightarrow> string list
     \<Rightarrow> (error + 'schema) \<times> 'db files"
where
  "update_schema sq get_db_file_path get_schema db_path fs db_id queries =
     (let db_file_path = get_db_file_path db_path db_id in
      if db_file_path \<notin> dom fs
      then (Inl (HTTPException 404 ''database not found''), fs)
      else execute_and_commit sq get_schema db_path fs db_id db_file_path queries)"

subsection \<open>\<^verbatim>\<open>GET /serialized-schema/{db_id}/\<close>\<close>

text \<open>
  The schema dictionary is read at \<^verbatim>\<open>db_table_names\<close>, \<^verbatim>\<open>db_column_names\<close> and
  \<^verbatim>\<open>db_foreign_keys\<close>: the tables in order, the columns in order, each with the
  position of its table, and the foreign keys as pairs of column positions.
\<close>

record schema =
  db_table_names :: "string list"
  db_column_names :: "(nat \<times> string) list"
  db_foreign_keys :: "(nat \<times> nat) list"

text \<open>
  The handler's parameters after \<^verbatim>\<open>db_id\<close> are query parameters with defaults and
  without type annotations:
  \<^verbatim>\<open>
  def get_serialized_schema(db_id, schema_serialization_type = "peteshaw",
                                   schema_serialization_randomized = False,
                                   schema_serialization_with_db_id = True,
                                   schema_serialization_with_db_content = False):
  \<close>
  With no annotation the web framework converts nothing: a parameter absent from the
  URL has its default, and a parameter given in the URL arrives as the string given. So
  a flag is a Python value that is a boolean or a string, and it counts as true where
  Python tests it (\<^verbatim>\<open>if flag:\<close>) when it is \<^verbatim>\<open>True\<close> or a string that is not empty,
  \<^verbatim>\<open>'false'\<close> included.
\<close>

datatype pyvalue = PyBool bool | PyStr string

fun truthy :: "pyvalue \<Rightarrow> bool" where
  "truthy (PyBool b) = b"
| "truthy (PyStr s) = (s \<noteq> [])"

definition query_param :: "(string \<rightharpoonup> string) \<Rightarrow> string \<Rightarrow> pyvalue \<Rightarrow> pyvalue" where
  "query_param params name default_value =
     (case params name of None \<Rightarrow> default_value | Some given \<Rightarrow> PyStr given)"

text \<open>
  The serialization settings \<^verbatim>\<open>serialize_schema\<close> is called with: the four parameters
  of the handler and \<^verbatim>\<open>data_training_args.include_foreign_keys_in_schema\<close>, a boolean
  of the parsed arguments.
\<close>

record serialization =
  schema_serialization_type :: pyvalue
  schema_serialization_randomized :: pyvalue
  schema_serialization_with_db_id :: pyvalue
  schema_serialization_with_db_content :: pyvalue
  include_foreign_keys :: bool

text \<open>
  \<^verbatim>\<open>get_serialized_schema\<close>: the schema from the pipeline's cache, serialized for the
  fixed question \<^verbatim>\<open>'question'\<close>, then \<^verbatim>\<open>spider_get_input\<close> with the empty prefix.
  \<open>params\<close> are the query parameters of the request. The three functions called are
  not among the sources and are parameters here: \<open>get_schema_from_cache\<close> takes the
  cache and the files and gives the next cache, \<open>serialize_schema\<close> takes the request's
  random seed and the files (for sampled column contents) before the source's
  arguments; either may raise.
\<close>

definition get_serialized_schema ::
  "('cache \<Rightarrow> 'db files \<Rightarrow> string \<Rightarrow> ('e + schema) \<times> 'cache)
     \<Rightarrow> ('seed \<Rightarrow> 'db files \<Rightarrow> string \<Rightarrow> string \<Rightarrow> string \<Rightarrow> (nat \<times> string) list
          \<Rightarrow> string list \<Rightarrow> serialization \<Rightarrow> (nat \<times> nat) list \<Rightarrow> 'e + string)
     \<Rightarrow> (string \<Rightarrow> string \<Rightarrow> string \<Rightarrow> string)
     \<Rightarrow> string \<Rightarrow> bool \<Rightarrow> 'seed \<Rightarrow> 'cache \<Rightarrow> 'db files \<Rightarrow> string
     \<Rightarrow> (string \<rightharpoonup> string) \<Rightarrow> ('e + string) \<times> 'cache"
where
  "get_serialized_schema get_schema_from_cache serialize_schema spider_get_input
       db_path include_foreign_keys_in_schema seed cache fs db_id params =
     (case get_schema_from_cache cache fs db_id of
        (Inl e, cache') \<Rightarrow> (Inl e, cache')
      | (Inr schema, cache') \<Rightarrow>
          (case serialize_schema seed fs ''question'' db_path db_id
                  (db_column_names schema) (db_table_names schema)
                  \<lparr>schema_serialization_type =
                     query_param params ''schema_serialization_type'' (PyStr ''peteshaw''),
                   schema_serialization_randomized =
                     query_param params ''schema_serialization_randomized'' (PyBool False),
                   schema_serialization_with_db_id =
                     query_param params ''schema_serialization_with_db_id'' (PyBool True),
                   schema_serialization_with_db_content =
                     query_param params ''schema_serialization_with_db_content''
                       (PyBool False),
                   include_foreign_keys = include_foreign_keys_in_schema\<rparr>
                  (db_foreign_keys schema) of
             Inl e \<Rightarrow> (Inl e, cache')
           | Inr serialized_schema \<Rightarrow>
               (Inr (spider_get_input ''question'' serialized_schema ''''), cache')))"

section \<open>The components the specification describes\<close>

text \<open>
  Modelled from the spec: the path of a database file, which the handlers of
  \<^verbatim>\<open>/schema/{db_id}\<close> obtain from \<^verbatim>\<open>get_db_file_path\<close> of \<^verbatim>\<open>seq2seq.utils.pipeline\<close>
  (not among the sources). Section 6: "one container directory per database id,
  containing exactly one database file named identically to the directory", the layout
  \<^verbatim>\<open><root>/<db_id>/<db_id>.<ext>\<close>; the extension is the \<^verbatim>\<open>.sqlite\<close> that \<^verbatim>\<open>ask\<close> and
  \<^verbatim>\<open>get_database_list\<close> use.
\<close>

definition db_file :: "string \<Rightarrow> string \<Rightarrow> string" where
  "db_file db_path db_id = db_path @ ''/'' @ db_id @ ''/'' @ db_id @ ''.sqlite''"

text \<open>
  Modelled from the spec: the errors of SchemaStore and SchemaSerializer (section 7).
\<close>

datatype store_error = NotFoundError | SchemaReadError string | ConfigError

text \<open>
  Modelled from the spec: the generation pipeline behind \<^verbatim>\<open>/ask/\<close>
  (\<^verbatim>\<open>Text2SQLGenerationPipeline\<close> of \<^verbatim>\<open>seq2seq.utils.pipeline\<close>, not among the sources).
  Section 4.3: it resolves the schema, serializes it and has the generator produce the
  candidates, and "requests with database ids that do not resolve fail with
  NotFoundError propagated from SchemaStore"; section 4.1: resolve "fails with
  NotFoundError if no database file exists for db_id". The failure is raised as the
  \<^verbatim>\<open>OperationalError\<close> that \<^verbatim>\<open>ask\<close> catches; the generator is the parameter \<open>generate\<close>.
\<close>

definition Text2SQLGenerationPipeline ::
  "('db \<Rightarrow> string \<Rightarrow> nat \<Rightarrow> pipe_output list) \<Rightarrow> string
     \<Rightarrow> 'db files \<Rightarrow> string \<Rightarrow> string \<Rightarrow> nat \<Rightarrow> exc + pipe_output list"
where
  "Text2SQLGenerationPipeline generate db_path fs utterance db_id num_return_sequences =
     (case fs (db_file db_path db_id) of
        None \<Rightarrow> Inl (OperationalError ''unable to open database file'')
      | Some db \<Rightarrow> Inr (generate db utterance num_return_sequences))"

text \<open>
  Modelled from the spec: the generation pipeline behind \<^verbatim>\<open>/ask-with-schema/\<close>
  (\<^verbatim>\<open>Text2SQLGenPipelineWithSchema\<close> of \<^verbatim>\<open>seq2seq.utils.pipeline\<close>, not among the
  sources). Section 3: a request of the shape \<^verbatim>\<open>{utterance, inline_schema_text}\<close> has its
  "schema supplied verbatim, bypassing SchemaStore", and section 2 has resolving and
  serializing "skipped for inline": the files are neither read nor written. Section 4.3:
  the external generator "produces num_return_sequences token sequences", ranked best
  first, and each is decoded and trimmed "into plain SQL text"; section 3: the result
  has "length = requested num_return_sequences". A failure of the generator or of its
  oracle fails the request. The generator is the parameter \<open>generate\<close>, which raises or
  gives the token sequence of each rank, and the decoding is the parameter \<open>decode\<close>.
\<close>

definition Text2SQLGenPipelineWithSchema ::
  "(string \<Rightarrow> string \<Rightarrow> nat \<Rightarrow> exc + (nat \<Rightarrow> 'tokens)) \<Rightarrow> ('tokens \<Rightarrow> string)
     \<Rightarrow> 'db files \<Rightarrow> string \<Rightarrow> string \<Rightarrow> nat \<Rightarrow> (exc + pipe_output list) \<times> 'db files"
where
  "Text2SQLGenPipelineWithSchema generate decode fs utterance schema_text
       num_return_sequences =
     (case generate utterance schema_text num_return_sequences of
        Inl e \<Rightarrow> (Inl e, fs)
      | Inr ranked \<Rightarrow>
          (Inr (map (\<lambda>rank. \<lparr>generated_text = decode (ranked rank)\<rparr>)
                  [0..<num_return_sequences]),
           fs))"

text \<open>
  Modelled from the spec: \<^verbatim>\<open>resolve\<close> of SchemaStore (section 4.1), which the handler
  calls as \<^verbatim>\<open>pipe_with_schema.get_schema_from_cache\<close> (not among the sources). At most
  one schema is cached per database id; a schema is "built once per database id on
  first access, cached for the process lifetime"; resolve "fails with NotFoundError if
  no database file exists for db_id" and "with SchemaReadError if structural
  introspection of the database fails". The introspection is the parameter
  \<open>introspect\<close>.
\<close>

definition get_schema_from_cache ::
  "('db \<Rightarrow> string + schema) \<Rightarrow> string \<Rightarrow> (string \<rightharpoonup> schema) \<Rightarrow> 'db files \<Rightarrow> string
     \<Rightarrow> (store_error + schema) \<times> (string \<rightharpoonup> schema)"
where
  "get_schema_from_cache introspect db_path cache fs db_id =
     (case cache db_id of
        Some schema \<Rightarrow> (Inr schema, cache)
      | None \<Rightarrow>
          (case fs (db_file db_path db_id) of
             None \<Rightarrow> (Inl NotFoundError, cache)
           | Some db \<Rightarrow>
               (case introspect db of
                  Inl msg \<Rightarrow> (Inl (SchemaReadError msg), cache)
                | Inr schema \<Rightarrow> (Inr schema, cache(db_id \<mapsto> schema)))))"

text \<open>
  Modelled from the spec: \<^verbatim>\<open>serialize\<close> of SchemaSerializer (section 4.2), the
  \<^verbatim>\<open>serialize_schema\<close> of \<^verbatim>\<open>seq2seq.utils.dataset\<close> (not among the sources).
  "Deterministic given identical schema and config, except when config.randomize_tables
  is set, in which case table (and within each table, column) presentation order is
  permuted using a request-scoped random seed"; "the specific token grammar is a style
  parameter, not hardcoded"; "an unrecognized style fails with ConfigError"; sampled
  contents come from "read-only queries against the target database". So \<open>styles\<close> maps
  a style's name to its rendering of the (possibly permuted) tables, columns and foreign
  keys under the settings, and \<open>permute\<close> reorders tables and columns from a seed.
  The flag is set when the value passed for it is true in Python's sense; the style is
  recognized by its name, a string.
\<close>

definition serialize_schema ::
  "(string \<rightharpoonup> (serialization \<Rightarrow> 'db option \<Rightarrow> string \<Rightarrow> string \<Rightarrow> schema \<Rightarrow> string))
     \<Rightarrow> ('seed \<Rightarrow> schema \<Rightarrow> schema)
     \<Rightarrow> 'seed \<Rightarrow> 'db files \<Rightarrow> string \<Rightarrow> string \<Rightarrow> string \<Rightarrow> (nat \<times> string) list
     \<Rightarrow> string list \<Rightarrow> serialization \<Rightarrow> (nat \<times> nat) list \<Rightarrow> store_error + string"
where
  "serialize_schema styles permute seed fs question' db_path db_id columns tables cfg
       foreign_keys =
     (case (case schema_serialization_type cfg of
              PyStr name \<Rightarrow> styles name
            | PyBool b \<Rightarrow> None) of
        None \<Rightarrow> Inl ConfigError
      | Some render \<Rightarrow>
          (let schema = \<lparr>db_table_names = tables, db_column_names = columns,
                          db_foreign_keys = foreign_keys\<rparr>;
               shown = (if truthy (schema_serialization_randomized cfg)
                        then permute seed schema else schema)
           in Inr (render cfg (fs (db_file db_path db_id)) question' db_id shown)))"

section \<open>A small sqlite3 for concrete runs\<close>

text \<open>
  An instance of the interface on which the handlers can be run: a database is the list
  of its tables' names, all tables are empty, and two statements are understood,
  \<^verbatim>\<open>CREATE TABLE t ...\<close> and \<^verbatim>\<open>SELECT * FROM t\<close>, with the engine's messages for a table
  that exists already and for one that is missing; any other text is refused as a syntax
  error (the engine's own message also names the offending token). Every failure is an
  \<^verbatim>\<open>OperationalError\<close> and leaves the database as it was. In its default transaction control
  Python's \<^verbatim>\<open>sqlite3\<close> begins a transaction implicitly before \<^verbatim>\<open>INSERT\<close>, \<^verbatim>\<open>UPDATE\<close>,
  \<^verbatim>\<open>DELETE\<close> and \<^verbatim>\<open>REPLACE\<close> only; neither statement here is one of them, so a
  \<^verbatim>\<open>CREATE TABLE\<close> that succeeds is on disk at once, \<^verbatim>\<open>commit\<close> has nothing to write and
  \<^verbatim>\<open>close\<close> nothing to discard: the state of a connection is what is on disk. Opening
  a missing file creates an empty database.
\<close>

definition startswith :: "string \<Rightarrow> string \<Rightarrow> bool" where
  "startswith s pre = (take (length pre) s = pre)"

definition ddl_execute ::
  "string list \<Rightarrow> string \<Rightarrow> (exc + string list list) \<times> string list"
where
  "ddl_execute tables q =
     (if startswith q ''CREATE TABLE '' then
        (let t = takeWhile (\<lambda>c. c \<noteq> CHR '' '') (drop 13 q) in
         if t \<in> set tables
         then (Inl (OperationalError (''table '' @ t @ '' already exists'')), tables)
         else (Inr [], tables @ [t]))
      else if startswith q ''SELECT * FROM '' then
        (let t = drop 14 q in
         if t \<in> set tables then (Inr [], tables)
         else (Inl (OperationalError (''no such table: '' @ t)), tables))
      else (Inl (OperationalError ''syntax error''), tables))"

definition ddl_sqlite3 :: "(string list, string list, string list) sqlite3" where
  "ddl_sqlite3 =
     \<lparr>connect = (\<lambda>file. Inr (case file of None \<Rightarrow> [] | Some tables \<Rightarrow> tables)),
      execute = ddl_execute,
      commit = (\<lambda>con. (None, con)),
      close = (\<lambda>con. con)\<rparr>"

text \<open>
  For the same runs: \<^verbatim>\<open>get_schema\<close> reads the tables of the database file, and the
  files hold one database \<^verbatim>\<open>d\<close> with the single table \<^verbatim>\<open>t\<close>.
\<close>

definition ddl_get_schema ::
  "string list files \<Rightarrow> string \<Rightarrow> string \<Rightarrow> exc + string list"
where
  "ddl_get_schema fs db_path db_id =
     (case fs (db_file db_path db_id) of
        None \<Rightarrow> Inl (OperationalError ''unable to open database file'')
      | Some tables \<Rightarrow> Inr tables)"

definition one_database :: "string list files" where
  "one_database = [''database/d/d.sqlite'' \<mapsto> [''t'']]"





section \<open>Listing the databases\<close>

lemma located_nonempty: "located e p \<Longrightarrow> p \<noteq> [] \<and> hd p = entry_name e"
  by (induction rule: located.induct) simp_all

lemma located_single: "located e [n] \<Longrightarrow> n = entry_name e"
  using located_nonempty by fastforce

lemma located_File_iff: "located (File n) p \<longleftrightarrow> p = [n]"
  by (auto elim: located.cases intro: located.here [of "File n", simplified])

lemma located_Dir_iff:
  "located (Dir d es) p \<longleftrightarrow> p = [d] \<or> (\<exists>e \<in> set es. \<exists>q. p = d # q \<and> located e q)"
  by (auto elim: located.cases intro: located.below located.here [of "Dir d es", simplified])

text \<open>
  The walk finds exactly the paths of at least two components (an entry with the
  directory that holds it) whose last component matches the pattern.
\<close>

lemma rglob_sqlite_sound:
  "q \<in> set (rglob_sqlite pre e) \<Longrightarrow>
     \<exists>p. q = pre @ p \<and> located e p \<and> 2 \<le> length p \<and> matches_sqlite (last p)"
proof (induction e arbitrary: pre q)
  case (File n)
  then show ?case by simp
next
  case (Dir d es)
  from Dir.prems consider
      (child) e where "e \<in> set es" "matches_sqlite (entry_name e)" "q = pre @ [d, entry_name e]"
    | (deeper) e where "e \<in> set es" "q \<in> set (rglob_sqlite (pre @ [d]) e)"
    by auto
  then show ?case
  proof cases
    case child
    have "located (Dir d es) [d, entry_name e]"
      by (rule located.below [OF child(1) located.here])
    with child show ?thesis by (intro exI [of _ "[d, entry_name e]"]) simp
  next
    case deeper
    from Dir.IH [OF deeper] obtain p where
      p: "q = (pre @ [d]) @ p" "located e p" "2 \<le> length p" "matches_sqlite (last p)"
      by blast
    have "located (Dir d es) (d # p)"
      using deeper(1) p(2) by (rule located.below)
    moreover have "last (d # p) = last p" using p(3) by (cases p) auto
    ultimately show ?thesis using p by (intro exI [of _ "d # p"]) simp
  qed
qed

lemma rglob_sqlite_complete:
  "located e p \<Longrightarrow> 2 \<le> length p \<Longrightarrow> matches_sqlite (last p) \<Longrightarrow>
     pre @ p \<in> set (rglob_sqlite pre e)"
proof (induction arbitrary: pre rule: located.induct)
  case (here e)
  then show ?case by simp
next
  case (below e es p d)
  show ?case
  proof (cases "2 \<le> length p")
    case True
    moreover have "last (d # p) = last p" using True by (cases p) auto
    ultimately have "(pre @ [d]) @ p \<in> set (rglob_sqlite (pre @ [d]) e)"
      using below.IH [of "pre @ [d]"] below.prems by simp
    with below.hyps(1) show ?thesis by auto
  next
    case False
    with below.prems have "length p = 1" by simp
    then obtain n where n: "p = [n]" by (cases p) auto
    with below.hyps(2) have "n = entry_name e" by (simp add: located_single)
    with n below.hyps(1) below.prems show ?thesis by auto
  qed
qed

lemma listed_if_located:
  assumes "located db_dir p" and "2 \<le> length p" and "matches_sqlite (last p)"
    and "stem (last p) = stem (last (butlast p))"
  shows "stem (last p) \<in> set (get_database_list db_dir)"
proof -
  from rglob_sqlite_complete [OF assms(1,2,3), of "[]"]
  have "p \<in> set (rglob_sqlite [] db_dir)" by simp
  with assms(4) show ?thesis
    by (auto simp: get_database_list_def path_stem_def parent_def)
qed

lemma located_if_listed:
  assumes "s \<in> set (get_database_list db_dir)"
  shows "\<exists>p. located db_dir p \<and> 2 \<le> length p \<and> matches_sqlite (last p)
           \<and> stem (last p) = stem (last (butlast p)) \<and> s = stem (last p)"
proof -
  from assms obtain q where q: "q \<in> set (rglob_sqlite [] db_dir)"
      "path_stem q = path_stem (parent q)" "s = path_stem q"
    by (auto simp: get_database_list_def)
  from rglob_sqlite_sound [OF q(1)] q(2,3) show ?thesis
    by (auto simp: path_stem_def parent_def)
qed

lemmas eval_listing =
  get_database_list_def matches_sqlite_def endswith_def path_stem_def parent_def stem_def

text \<open>
  C3, as amended. \<^verbatim>\<open>GET /database\<close> returns exactly the stems of the entries named
  \<^verbatim>\<open>*.sqlite\<close> that lie at any depth under the database root (the root's own entries
  included, the root being their parent) and whose stem equals the stem of the name of
  the directory that holds them. The stem of a name is the name up to its last dot, and
  the whole name when it has no dot or only a leading or trailing one; so for a
  directory without such a suffix the comparison is with the directory's name.
\<close>

theorem get_database_list_exactly:
  "s \<in> set (get_database_list db_dir) \<longleftrightarrow>
     (\<exists>p. located db_dir p \<and> 2 \<le> length p \<and> matches_sqlite (last p)
        \<and> stem (last p) = stem (last (butlast p)) \<and> s = stem (last p))"
  using located_if_listed [of s db_dir] listed_if_located [of db_dir] by blast

text \<open>
  A root holding \<^verbatim>\<open>x/x.sqlite\<close> and \<^verbatim>\<open>y/z.sqlite\<close> lists \<^verbatim>\<open>x\<close> and neither \<^verbatim>\<open>y\<close> nor
  \<^verbatim>\<open>z\<close>.
\<close>

theorem get_database_list_exactly_witness:
  "''x'' \<in> set (get_database_list
      (Dir ''database'' [Dir ''x'' [File ''x.sqlite''], Dir ''y'' [File ''z.sqlite'']]))
   \<and> ''y'' \<notin> set (get_database_list
      (Dir ''database'' [Dir ''x'' [File ''x.sqlite''], Dir ''y'' [File ''z.sqlite'']]))
   \<and> ''z'' \<notin> set (get_database_list
      (Dir ''database'' [Dir ''x'' [File ''x.sqlite''], Dir ''y'' [File ''z.sqlite'']]))"
proof -
  let ?root = "Dir ''database'' [Dir ''x'' [File ''x.sqlite''], Dir ''y'' [File ''z.sqlite'']]"
  have "located ?root [''database'', ''x'', ''x.sqlite'']"
    by (simp add: located_Dir_iff located_File_iff)
  then have "\<exists>p. located ?root p \<and> 2 \<le> length p \<and> matches_sqlite (last p)
        \<and> stem (last p) = stem (last (butlast p)) \<and> ''x'' = stem (last p)"
    by (intro exI [of _ "[''database'', ''x'', ''x.sqlite'']"]) (simp add: eval_listing)
  then have "''x'' \<in> set (get_database_list ?root)"
    by (simp only: get_database_list_exactly [of "''x''" ?root])
  moreover have "''y'' \<notin> set (get_database_list ?root)"
    by (simp add: eval_listing)
  moreover have "''z'' \<notin> set (get_database_list ?root)"
    by (simp add: eval_listing)
  ultimately show ?thesis by simp
qed

text \<open>
  The claim as stated fails on its own example: under a root holding \<^verbatim>\<open>x/x.db\<close> and
  \<^verbatim>\<open>y/z.db\<close> the file \<^verbatim>\<open>x.db\<close> has the stem \<^verbatim>\<open>x\<close> of its directory's name, and nothing
  is listed, since only names ending in \<^verbatim>\<open>.sqlite\<close> are searched for.
\<close>

theorem get_database_list_db_extension_counterexample:
  "located (Dir ''database'' [Dir ''x'' [File ''x.db''], Dir ''y'' [File ''z.db'']])
     [''database'', ''x'', ''x.db'']
   \<and> stem ''x.db'' = ''x''
   \<and> get_database_list
       (Dir ''database'' [Dir ''x'' [File ''x.db''], Dir ''y'' [File ''z.db'']]) = []"
  by (simp add: located_Dir_iff located_File_iff eval_listing)

text \<open>
  C10, as amended. The search is recursive: an entry named \<^verbatim>\<open>*.sqlite\<close> below any
  chain \<open>ds\<close> of directories, however long, is listed when its stem equals the stem of
  the name of the directory \<open>d\<close> that holds it (the name up to its last dot; the whole
  name when the directory's name has no suffix).
\<close>

theorem get_database_list_any_depth:
  assumes "located db_dir (ds @ [d, f])" and "matches_sqlite f" and "stem f = stem d"
  shows "stem f \<in> set (get_database_list db_dir)"
  using listed_if_located [of db_dir "ds @ [d, f]"] assms by (simp add: butlast_append)

text \<open>\<^verbatim>\<open><root>/a/x/x.sqlite\<close> contributes \<^verbatim>\<open>x\<close>.\<close>

theorem get_database_list_any_depth_witness:
  "located (Dir ''database'' [Dir ''a'' [Dir ''x'' [File ''x.sqlite'']]])
     ([''database'', ''a''] @ [''x'', ''x.sqlite''])
   \<and> matches_sqlite ''x.sqlite''
   \<and> stem ''x.sqlite'' = stem ''x''
   \<and> stem ''x.sqlite'' \<in> set (get_database_list
       (Dir ''database'' [Dir ''a'' [Dir ''x'' [File ''x.sqlite'']]]))"
proof -
  let ?root = "Dir ''database'' [Dir ''a'' [Dir ''x'' [File ''x.sqlite'']]]"
  have l: "located ?root ([''database'', ''a''] @ [''x'', ''x.sqlite''])"
    by (simp add: located_Dir_iff located_File_iff)
  have m: "matches_sqlite ''x.sqlite''"
    by (simp add: matches_sqlite_def endswith_def)
  have s: "stem ''x.sqlite'' = stem ''x''"
    by (simp add: stem_def)
  from get_database_list_any_depth [OF l m s] l m s show ?thesis by blast
qed

text \<open>
  The claim as stated compares with the directory's name: the file
  \<^verbatim>\<open>x.y/x.y.sqlite\<close> has the stem \<^verbatim>\<open>x.y\<close>, the name of its directory, and is not listed,
  the directory's stem being \<^verbatim>\<open>x\<close>.
\<close>

theorem get_database_list_dotted_directory_counterexample:
  "located (Dir ''database'' [Dir ''x.y'' [File ''x.y.sqlite'']])
     [''database'', ''x.y'', ''x.y.sqlite'']
   \<and> matches_sqlite ''x.y.sqlite''
   \<and> stem ''x.y.sqlite'' = ''x.y''
   \<and> ''x.y'' \<notin> set (get_database_list
       (Dir ''database'' [Dir ''x.y'' [File ''x.y.sqlite'']]))"
  by (simp add: located_Dir_iff located_File_iff eval_listing)

section \<open>Executing the candidates of \<^verbatim>\<open>/ask/\<close>\<close>




lemmas eval_ddl =
  ddl_sqlite3_def ddl_execute_def startswith_def ddl_get_schema_def one_database_def
  db_file_def




section \<open>Creating and updating a database\<close>

lemma execute_all_stop:
  "execute_all sq con pre = (None, con1) \<Longrightarrow> execute sq con1 q = (Inl e, con2) \<Longrightarrow>
     execute_all sq con (pre @ q # post) = (Some e, con2)"
proof (induction pre arbitrary: con)
  case Nil
  then show ?case by simp
next
  case (Cons p pre)
  from Cons.prems(1) obtain rows c where
    step: "execute sq con p = (Inr rows, c)" and rest: "execute_all sq c pre = (None, con1)"
    by (auto split: prod.splits sum.splits)
  from Cons.IH [OF rest Cons.prems(2)] step show ?case by simp
qed

lemma execute_and_commit_stop:
  assumes "connect sq (fs target) = Inr con"
    and "execute_all sq con pre = (None, con1)"
    and "execute sq con1 q = (Inl (OperationalError msg), con2)"
  shows "execute_and_commit sq get_schema db_path fs db_id target (pre @ q # post)
     = (Inl (HTTPException 400 msg), fs(target \<mapsto> close sq con2))"
  using assms(1) execute_all_stop [OF assms(2,3), of post]
  by (simp add: execute_and_commit_def)

text \<open>
  Whatever \<^verbatim>\<open>execute_and_commit\<close> returns but the exception of \<^verbatim>\<open>connect\<close>, the
  database file exists afterwards.
\<close>

lemma execute_and_commit_file:
  assumes "execute_and_commit sq get_schema db_path fs db_id target queries = (r, fs')"
    and "connect sq (fs target) = Inr con"
  shows "target \<in> dom fs'"
  using assms
  by (auto simp: execute_and_commit_def Let_def
           split: sum.splits prod.splits option.splits exc.splits)

lemma execute_and_commit_connected:
  assumes "execute_and_commit sq get_schema db_path fs db_id target queries = (r, fs')"
    and "r = Inr schema \<or> r = Inl (HTTPException code detail)"
  shows "\<exists>con. connect sq (fs target) = Inr con"
  using assms
  by (auto simp: execute_and_commit_def Let_def
           split: sum.splits prod.splits option.splits exc.splits)

text \<open>
  C2. The handlers commit once, after the last statement, and when a statement raises
  they close the connection without a commit (\<open>execute_and_commit_stop\<close>): the shape of
  a batch applied as a whole or not at all. For a batch that begins with DDL it is not:
  on the database \<^verbatim>\<open>d\<close> with its table \<^verbatim>\<open>t\<close>, the update of section 8, whose statement
  2 of 3 fails, ends in status 400, and the table \<^verbatim>\<open>a\<close> of statement 1 is in the
  database afterwards, which held the table \<^verbatim>\<open>t\<close> alone before.
\<close>

theorem update_schema_failed_batch_not_rolled_back:
  "one_database ''database/d/d.sqlite'' = Some [''t'']
   \<and> fst (update_schema ddl_sqlite3 db_file ddl_get_schema ''database'' one_database ''d''
       [''CREATE TABLE a (x)'', ''CREATE TABLE a (x)'', ''CREATE TABLE b (y)''])
     = Inl (HTTPException 400 ''table a already exists'')
   \<and> snd (update_schema ddl_sqlite3 db_file ddl_get_schema ''database'' one_database ''d''
       [''CREATE TABLE a (x)'', ''CREATE TABLE a (x)'', ''CREATE TABLE b (y)''])
       ''database/d/d.sqlite''
     = Some [''t'', ''a'']"
  by (simp add: update_schema_def execute_and_commit_def eval_ddl)

text \<open>
  C4. When the database file exists, create fails with status 409 and leaves the files
  as they were, whatever the statements and the engine: none is applied. A create that
  has returned a schema has left the file behind, so a second create for the same id
  fails with status 409.
\<close>

theorem create_schema_already_exists:
  "(get_db_file_path db_path db_id \<in> dom fs \<longrightarrow>
      create_schema sq get_db_file_path get_schema db_path fs db_id queries
      = (Inl (HTTPException 409 ''database already exists''), fs))
   \<and> (create_schema sq get_db_file_path get_schema db_path fs db_id queries = (Inr schema, fs')
      \<longrightarrow> create_schema sq get_db_file_path get_schema db_path fs' db_id queries'
          = (Inl (HTTPException 409 ''database already exists''), fs'))"
proof (intro conjI impI)
  show "create_schema sq get_db_file_path get_schema db_path fs db_id queries
      = (Inl (HTTPException 409 ''database already exists''), fs)"
    if "get_db_file_path db_path db_id \<in> dom fs"
    using that by (simp add: create_schema_def)
next
  assume first: "create_schema sq get_db_file_path get_schema db_path fs db_id queries
      = (Inr schema, fs')"
  then have run: "execute_and_commit sq get_schema db_path fs db_id
      (get_db_file_path db_path db_id) queries = (Inr schema, fs')"
    by (simp add: create_schema_def Let_def split: if_splits)
  from execute_and_commit_connected [OF run] obtain con where
    "connect sq (fs (get_db_file_path db_path db_id)) = Inr con" by blast
  from execute_and_commit_file [OF run this]
  show "create_schema sq get_db_file_path get_schema db_path fs' db_id queries'
      = (Inl (HTTPException 409 ''database already exists''), fs')"
    by (simp add: create_schema_def)
qed

text \<open>
  The database \<^verbatim>\<open>d\<close> exists, so creating it fails; \<^verbatim>\<open>e\<close> is created, and creating it
  again fails.
\<close>

theorem create_schema_already_exists_witness:
  "create_schema ddl_sqlite3 db_file ddl_get_schema ''database'' one_database ''d''
       [''CREATE TABLE a (x)'']
     = (Inl (HTTPException 409 ''database already exists''), one_database)
   \<and> create_schema ddl_sqlite3 db_file ddl_get_schema ''database''
       (one_database(''database/e/e.sqlite'' \<mapsto> [''a''])) ''e'' [''CREATE TABLE b (y)'']
     = (Inl (HTTPException 409 ''database already exists''),
        one_database(''database/e/e.sqlite'' \<mapsto> [''a'']))"
proof -
  have d_file: "db_file ''database'' ''d'' \<in> dom one_database"
    by (simp add: eval_ddl)
  have first: "create_schema ddl_sqlite3 db_file ddl_get_schema ''database'' one_database ''e''
       [''CREATE TABLE a (x)'']
     = (Inr [''a''], one_database(''database/e/e.sqlite'' \<mapsto> [''a'']))"
    by (simp add: create_schema_def execute_and_commit_def eval_ddl)
  from create_schema_already_exists [where fs = one_database and get_db_file_path = db_file,
      THEN conjunct1, rule_format, OF d_file]
    create_schema_already_exists [where fs = one_database and get_db_file_path = db_file,
      THEN conjunct2, rule_format, OF first]
  show ?thesis by blast
qed

text \<open>
  C9. A create that fails with status 400 was asked for a database whose file did not
  exist, and leaves the file that opening the connection created: a later create for
  the same id fails with status 409, though no schema was ever returned for the id.
\<close>

theorem create_schema_failed_batch_keeps_file:
  assumes "create_schema sq get_db_file_path get_schema db_path fs db_id queries
      = (Inl (HTTPException 400 msg), fs')"
  shows "get_db_file_path db_path db_id \<notin> dom fs
     \<and> get_db_file_path db_path db_id \<in> dom fs'
     \<and> create_schema sq get_db_file_path get_schema db_path fs' db_id queries'
        = (Inl (HTTPException 409 ''database already exists''), fs')"
proof -
  from assms have absent: "get_db_file_path db_path db_id \<notin> dom fs"
    by (auto simp: create_schema_def Let_def split: if_splits)
  with assms have run: "execute_and_commit sq get_schema db_path fs db_id
      (get_db_file_path db_path db_id) queries = (Inl (HTTPException 400 msg), fs')"
    by (simp add: create_schema_def)
  from execute_and_commit_connected [OF run] obtain con where
    "connect sq (fs (get_db_file_path db_path db_id)) = Inr con" by blast
  from execute_and_commit_file [OF run this]
  have present: "get_db_file_path db_path db_id \<in> dom fs'" .
  then have "create_schema sq get_db_file_path get_schema db_path fs' db_id queries'
      = (Inl (HTTPException 409 ''database already exists''), fs')"
    by (simp add: create_schema_def)
  with absent present show ?thesis by simp
qed

text \<open>
  Creating \<^verbatim>\<open>e\<close> with a statement that is no SQL fails with status 400 and leaves an
  empty database \<^verbatim>\<open>e\<close>; creating \<^verbatim>\<open>e\<close> again, with a valid statement, fails with
  status 409.
\<close>

theorem create_schema_failed_batch_keeps_file_witness:
  "create_schema ddl_sqlite3 db_file ddl_get_schema ''database'' one_database ''e''
       [''CREATE TABEL a (x)'']
     = (Inl (HTTPException 400 ''syntax error''), one_database(''database/e/e.sqlite'' \<mapsto> []))
   \<and> ''database/e/e.sqlite'' \<notin> dom one_database
   \<and> create_schema ddl_sqlite3 db_file ddl_get_schema ''database''
       (one_database(''database/e/e.sqlite'' \<mapsto> [])) ''e'' [''CREATE TABLE a (x)'']
     = (Inl (HTTPException 409 ''database already exists''),
        one_database(''database/e/e.sqlite'' \<mapsto> []))"
proof -
  have first: "create_schema ddl_sqlite3 db_file ddl_get_schema ''database'' one_database ''e''
       [''CREATE TABEL a (x)'']
     = (Inl (HTTPException 400 ''syntax error''), one_database(''database/e/e.sqlite'' \<mapsto> []))"
    by (simp add: create_schema_def execute_and_commit_def eval_ddl)
  from create_schema_failed_batch_keeps_file [OF first, of "[''CREATE TABLE a (x)'']"] first
  show ?thesis by (simp add: eval_ddl)
qed

text \<open>
  An update for an id that has no database file fails with status 404 and leaves the
  files as they were; no connection is opened.
\<close>

theorem update_schema_not_found:
  assumes "get_db_file_path db_path db_id \<notin> dom fs"
  shows "update_schema sq get_db_file_path get_schema db_path fs db_id queries
     = (Inl (HTTPException 404 ''database not found''), fs)"
  using assms by (simp add: update_schema_def)

theorem update_schema_not_found_witness:
  "db_file ''database'' ''e'' \<notin> dom one_database
   \<and> update_schema ddl_sqlite3 db_file ddl_get_schema ''database'' one_database ''e''
       [''CREATE TABLE a (x)'']
     = (Inl (HTTPException 404 ''database not found''), one_database)"
proof -
  have absent: "db_file ''database'' ''e'' \<notin> dom one_database"
    by (simp add: eval_ddl)
  from update_schema_not_found [where get_db_file_path = db_file, OF absent] absent
  show ?thesis by blast
qed

section \<open>Requests that do not execute candidates\<close>

text \<open>
  Whatever the pipeline is: when it raises an \<^verbatim>\<open>OperationalError\<close>, \<^verbatim>\<open>/ask/\<close> answers
  with status 404 and the exception's message, the same for every \<^verbatim>\<open>sqlite3\<close>, and the
  files are as before.
\<close>

theorem ask_pipeline_operational_error:
  assumes "pipe fs question' db_id n = Inl (OperationalError msg)"
  shows "\<forall>sq. ask sq pipe n db_path fs db_id question' = (Inl (HTTPException 404 msg), fs)"
  using assms by (simp add: ask_def)

theorem ask_pipeline_operational_error_witness:
  "\<forall>sq :: (string list, string list, string list) sqlite3.
      ask sq (\<lambda>fs q d n. Inl (OperationalError ''unable to open database file''))
        1 ''database'' one_database ''e'' ''which rows?''
      = (Inl (HTTPException 404 ''unable to open database file''), one_database)"
proof -
  let ?pipe = "\<lambda>(fs :: string list files) (q :: string) (d :: string) (n :: nat).
      (Inl (OperationalError ''unable to open database file'') :: exc + pipe_output list)"
  have raised: "?pipe one_database ''which rows?'' ''e'' 1
      = Inl (OperationalError ''unable to open database file'')"
    by simp
  from ask_pipeline_operational_error [where pipe = ?pipe and fs = one_database
      and db_id = "''e''" and n = 1 and question' = "''which rows?''"
      and msg = "''unable to open database file''", OF raised]
  show ?thesis by simp
qed

text \<open>
  C5. With the pipeline of the specification, a request to \<^verbatim>\<open>/ask/\<close> for an id that has
  no database file fails with status 404, and the files are as before: the handler
  returns before it opens a connection, so the answer is the same for every
  \<^verbatim>\<open>sqlite3\<close> and no candidate is executed.
\<close>

theorem ask_unknown_database:
  assumes "fs (db_file db_path db_id) = None"
  shows "\<exists>msg. \<forall>sq. ask sq (Text2SQLGenerationPipeline generate db_path)
            n db_path fs db_id question' = (Inl (HTTPException 404 msg), fs)"
  using assms by (simp add: ask_def Text2SQLGenerationPipeline_def)

text \<open>There is no database \<^verbatim>\<open>e\<close> beside \<^verbatim>\<open>d\<close>.\<close>

theorem ask_unknown_database_witness:
  "one_database (db_file ''database'' ''e'') = None
   \<and> (\<exists>msg. \<forall>sq :: (string list, string list, string list) sqlite3.
         ask sq (Text2SQLGenerationPipeline
                   (\<lambda>db utterance n. replicate n \<lparr>generated_text = ''SELECT * FROM t''\<rparr>)
                   ''database'')
           2 ''database'' one_database ''e'' ''which rows?''
         = (Inl (HTTPException 404 msg), one_database))"
proof -
  have absent: "one_database (db_file ''database'' ''e'') = None"
    by (simp add: eval_ddl)
  from ask_unknown_database [where fs = one_database, OF absent] absent
  show ?thesis by blast
qed

text \<open>
  Whatever the pipeline is: \<^verbatim>\<open>/ask-with-schema/\<close> leaves the files exactly as the
  pipeline left them, and when the pipeline returns its outputs the response is the list
  of their generated texts, in their order. The handler executes nothing.
\<close>

theorem ask_with_schema_adds_nothing:
  "snd (ask_with_schema pipe_with_schema n fs body)
     = snd (pipe_with_schema fs (question body) (db_schema body) n)
   \<and> (fst (pipe_with_schema fs (question body) (db_schema body) n) = Inr outputs \<longrightarrow>
        fst (ask_with_schema pipe_with_schema n fs body) = Inr (map generated_text outputs))"
proof (cases "pipe_with_schema fs (question body) (db_schema body) n")
  case (Pair r fs')
  then show ?thesis
    by (cases r) (auto simp: ask_with_schema_def split: exc.splits)
qed

text \<open>A pipeline that writes a file of its own: the handler hands both on.\<close>

theorem ask_with_schema_adds_nothing_witness:
  "ask_with_schema
       (\<lambda>fs q s k. (Inr [\<lparr>generated_text = ''SELECT name FROM singer''\<rparr>],
                      fs(''pipeline.log'' \<mapsto> [])))
       1 one_database \<lparr>question = ''Which singers?'', db_schema = ''| singer : name''\<rparr>
     = (Inr [''SELECT name FROM singer''], one_database(''pipeline.log'' \<mapsto> []))"
proof -
  let ?pipe = "\<lambda>(fs :: string list files) (q :: string) (s :: string) (k :: nat).
      ((Inr [\<lparr>generated_text = ''SELECT name FROM singer''\<rparr>] :: exc + pipe_output list),
       fs(''pipeline.log'' \<mapsto> []))"
  let ?body = "\<lparr>question = ''Which singers?'', db_schema = ''| singer : name''\<rparr>"
  have returned: "fst (?pipe one_database (question ?body) (db_schema ?body) 1)
      = Inr [\<lparr>generated_text = ''SELECT name FROM singer''\<rparr>]"
    by simp
  note inst = ask_with_schema_adds_nothing [where pipe_with_schema = ?pipe and body = ?body
      and n = 1 and fs = one_database
      and outputs = "[\<lparr>generated_text = ''SELECT name FROM singer''\<rparr>]"]
  from inst [THEN conjunct1] inst [THEN conjunct2, rule_format, OF returned]
  show ?thesis by (simp add: prod_eq_iff)
qed

text \<open>
  C6. With the pipeline of the specification: \<^verbatim>\<open>/ask-with-schema/\<close> leaves the files
  as they were, whatever the generator does, and when the generator has produced its
  sequences the response is the list of the raw decoded candidates, best first, one per
  requested sequence: their number is \<open>n\<close>. No candidate is executed.
\<close>

theorem ask_with_schema_raw_candidates:
  "snd (ask_with_schema (Text2SQLGenPipelineWithSchema generate decode) n fs body) = fs
   \<and> (generate (question body) (db_schema body) n = Inr ranked \<longrightarrow>
        ask_with_schema (Text2SQLGenPipelineWithSchema generate decode) n fs body
          = (Inr (map (\<lambda>rank. decode (ranked rank)) [0..<n]), fs)
        \<and> length (map (\<lambda>rank. decode (ranked rank)) [0..<n]) = n)"
proof (intro conjI impI)
  show "snd (ask_with_schema (Text2SQLGenPipelineWithSchema generate decode) n fs body) = fs"
    by (cases "generate (question body) (db_schema body) n")
       (auto simp: ask_with_schema_def Text2SQLGenPipelineWithSchema_def split: exc.splits)
next
  assume "generate (question body) (db_schema body) n = Inr ranked"
  then show "ask_with_schema (Text2SQLGenPipelineWithSchema generate decode) n fs body
      = (Inr (map (\<lambda>rank. decode (ranked rank)) [0..<n]), fs)"
    by (simp add: ask_with_schema_def Text2SQLGenPipelineWithSchema_def comp_def)
next
  show "length (map (\<lambda>rank. decode (ranked rank)) [0..<n]) = n"
    by simp
qed

text \<open>
  Three sequences requested of a generator whose best sequence asks for the names: three
  strings come back, and the database \<^verbatim>\<open>d\<close> is untouched.
\<close>

theorem ask_with_schema_raw_candidates_witness:
  "ask_with_schema
       (Text2SQLGenPipelineWithSchema
          (\<lambda>q s k. Inr (\<lambda>rank. if rank = 0 then ''SELECT name FROM singer''
                                 else ''SELECT * FROM singer''))
          (\<lambda>tokens. tokens))
       3 one_database \<lparr>question = ''Which singers?'', db_schema = ''| singer : name''\<rparr>
     = (Inr [''SELECT name FROM singer'', ''SELECT * FROM singer'', ''SELECT * FROM singer''],
        one_database)"
proof -
  let ?generate = "\<lambda>(q :: string) (s :: string) (k :: nat).
      (Inr (\<lambda>rank :: nat. if rank = 0 then ''SELECT name FROM singer''
                           else ''SELECT * FROM singer'') :: exc + (nat \<Rightarrow> string))"
  let ?body = "\<lparr>question = ''Which singers?'', db_schema = ''| singer : name''\<rparr>"
  have produced: "?generate (question ?body) (db_schema ?body) 3
      = Inr (\<lambda>rank :: nat. if rank = 0 then ''SELECT name FROM singer''
                           else ''SELECT * FROM singer'')"
    by simp
  have three: "[0..<3] = [0, 1, 2]"
    by (simp add: upt_rec)
  from ask_with_schema_raw_candidates [where generate = ?generate and body = ?body
      and n = 3 and fs = one_database and decode = "\<lambda>tokens. tokens"
      and ranked = "\<lambda>rank :: nat. if rank = 0 then ''SELECT name FROM singer''
                           else ''SELECT * FROM singer''",
      THEN conjunct2, rule_format, OF produced, THEN conjunct1]
  show ?thesis by (simp add: three)
qed

section \<open>The serialized schema\<close>

lemma get_schema_from_cache_again:
  "get_schema_from_cache introspect db_path cache fs db_id = (r, cache') \<Longrightarrow>
     get_schema_from_cache introspect db_path cache' fs db_id = (r, cache')"
  by (auto simp: get_schema_from_cache_def split: option.splits sum.splits)

lemma serialize_schema_seed:
  "\<not> truthy (schema_serialization_randomized cfg) \<Longrightarrow>
     serialize_schema styles permute seed' fs q db_path db_id columns tables cfg fks
     = serialize_schema styles permute seed fs q db_path db_id columns tables cfg fks"
  by (simp add: serialize_schema_def Let_def split: option.splits pyvalue.splits)

text \<open>
  With the SchemaStore and the SchemaSerializer of the specification: when the value the
  handler passes for \<^verbatim>\<open>schema_serialization_randomized\<close> is not true in Python's sense
  (the parameter is absent from the URL, or given as the empty string), a second run with
  the same parameters on the same files, from the cache the first run left and with any
  other random seed, gives what the first run gave.
\<close>

lemma get_serialized_schema_repeatable:
  assumes "\<not> truthy (query_param params ''schema_serialization_randomized'' (PyBool False))"
  shows "fst (get_serialized_schema (get_schema_from_cache introspect db_path)
                (serialize_schema styles permute) spider_get_input db_path fk seed'
                (snd (get_serialized_schema (get_schema_from_cache introspect db_path)
                        (serialize_schema styles permute) spider_get_input db_path fk seed
                        cache fs db_id params))
                fs db_id params)
         = fst (get_serialized_schema (get_schema_from_cache introspect db_path)
                  (serialize_schema styles permute) spider_get_input db_path fk seed
                  cache fs db_id params)"
proof -
  obtain r cache' where first:
    "get_schema_from_cache introspect db_path cache fs db_id = (r, cache')"
    by (cases "get_schema_from_cache introspect db_path cache fs db_id")
  note again = get_schema_from_cache_again [OF first]
  show ?thesis
  proof (cases r)
    case (Inl e)
    with first again show ?thesis by (simp add: get_serialized_schema_def)
  next
    case (Inr s)
    have "serialize_schema styles permute seed' fs q db_path db_id columns tables
            \<lparr>schema_serialization_type = ty,
               schema_serialization_randomized =
                 query_param params ''schema_serialization_randomized'' (PyBool False),
               schema_serialization_with_db_id = with_id,
               schema_serialization_with_db_content = with_content,
               include_foreign_keys = fk\<rparr> fks
          = serialize_schema styles permute seed fs q db_path db_id columns tables
            \<lparr>schema_serialization_type = ty,
               schema_serialization_randomized =
                 query_param params ''schema_serialization_randomized'' (PyBool False),
               schema_serialization_with_db_id = with_id,
               schema_serialization_with_db_content = with_content,
               include_foreign_keys = fk\<rparr> fks"
      for q columns tables ty with_id with_content fks
      using assms by (intro serialize_schema_seed) simp
    with Inr first again show ?thesis
      by (simp add: get_serialized_schema_def split: sum.splits)
  qed
qed


end
